theory Spec2Isabelle
  imports Main
begin

section \<open>Python values used by the Docker runtime executor\<close>

subsection \<open>Exceptions\<close>

text \<open>
  The part of Python's exception hierarchy that the module can meet. An
  \<open>except C\<close> clause catches an exception exactly when its class is \<open>C\<close> or a
  subclass of \<open>C\<close>. \<open>LambdaRuntimeException\<close> is declared by the module itself as a
  direct subclass of \<open>Exception\<close>; \<open>ContainerException\<close> stands for the errors of the
  container client, which derive from \<open>Exception\<close> as well. \<open>SameFileError\<close> is the
  error of \<open>shutil\<close>, an \<open>OSError\<close> (through \<open>shutil.Error\<close>, left out here).
\<close>

datatype exn_class =
    BaseException
  | KeyboardInterrupt
  | SystemExit
  | Exception
  | OSError
  | FileNotFoundError
  | PermissionError
  | ValueError
  | RuntimeError
  | NotImplementedError
  | LambdaRuntimeException
  | ContainerException
  | SameFileError
  | AttributeError

fun mro :: "exn_class \<Rightarrow> exn_class list" where
  "mro BaseException = [BaseException]"
| "mro KeyboardInterrupt = [KeyboardInterrupt, BaseException]"
| "mro SystemExit = [SystemExit, BaseException]"
| "mro Exception = [Exception, BaseException]"
| "mro OSError = [OSError, Exception, BaseException]"
| "mro FileNotFoundError = [FileNotFoundError, OSError, Exception, BaseException]"
| "mro PermissionError = [PermissionError, OSError, Exception, BaseException]"
| "mro ValueError = [ValueError, Exception, BaseException]"
| "mro RuntimeError = [RuntimeError, Exception, BaseException]"
| "mro NotImplementedError = [NotImplementedError, RuntimeError, Exception, BaseException]"
| "mro LambdaRuntimeException = [LambdaRuntimeException, Exception, BaseException]"
| "mro ContainerException = [ContainerException, Exception, BaseException]"
| "mro SameFileError = [SameFileError, OSError, Exception, BaseException]"
| "mro AttributeError = [AttributeError, Exception, BaseException]"

datatype exn = Exn (cls: exn_class) (msg: string)

definition isinstance :: "exn \<Rightarrow> exn_class \<Rightarrow> bool" where
  "isinstance e c = (c \<in> set (mro (cls e)))"

subsection \<open>Strings\<close>

text \<open>\<open>s.replace(a, b)\<close> for one-character \<open>a\<close> and \<open>b\<close>.\<close>

definition replace_char :: "char \<Rightarrow> char \<Rightarrow> string \<Rightarrow> string" where
  "replace_char a b s = map (\<lambda>c. if c = a then b else c) s"

text \<open>\<open>s.lower()\<close> on ASCII text: the letters A to Z move to a to z.\<close>

definition lower_char :: "char \<Rightarrow> char" where
  "lower_char c =
     (case map_of (zip ''ABCDEFGHIJKLMNOPQRSTUVWXYZ'' ''abcdefghijklmnopqrstuvwxyz'') c of
        None \<Rightarrow> c
      | Some l \<Rightarrow> l)"

definition lower :: "string \<Rightarrow> string" where
  "lower s = map lower_char s"

text \<open>\<open>s.split(c)\<close>: the pieces between the separators, empty pieces included.\<close>

fun split_on :: "char \<Rightarrow> string \<Rightarrow> string list" where
  "split_on c [] = [[]]"
| "split_on c (x # xs) =
     (if x = c then [] # split_on c xs
      else (case split_on c xs of [] \<Rightarrow> [[x]] | p # ps \<Rightarrow> (x # p) # ps))"

fun join :: "string \<Rightarrow> string list \<Rightarrow> string" where
  "join sep [] = []"
| "join sep [p] = p"
| "join sep (p # q # ps) = p @ sep @ join sep (q # ps)"

text \<open>How an f-string renders an optional string: \<open>None\<close> prints as \<open>None\<close>.\<close>

fun fmt_opt :: "string option \<Rightarrow> string" where
  "fmt_opt None = ''None''"
| "fmt_opt (Some s) = s"

text \<open>Python's truth value of an optional string: \<open>None\<close> and \<open>''\<close> are false.\<close>

fun truthy :: "string option \<Rightarrow> bool" where
  "truthy None = False"
| "truthy (Some s) = (s \<noteq> [])"

subsection \<open>Paths\<close>

text \<open>
  A \<open>pathlib.Path\<close> on a POSIX system is a root (\<open>''\<close>, \<open>/\<close> or \<open>//\<close>) and a list
  of parts. Parsing a string drops the empty pieces and the pieces \<open>.\<close>; exactly two
  leading slashes are kept as the root \<open>//\<close>, any other number of them is the root \<open>/\<close>.
\<close>

datatype path = PurePath (root: string) (parts: "string list")

definition path_root :: "string \<Rightarrow> string" where
  "path_root s =
     (let k = length (takeWhile (\<lambda>c. c = CHR ''/'') s)
      in if k = 0 then [] else if k = 2 then ''//'' else ''/'')"

definition path_parts :: "string \<Rightarrow> string list" where
  "path_parts s = filter (\<lambda>p. p \<noteq> [] \<and> p \<noteq> ''.'') (split_on CHR ''/'' s)"

definition Path :: "string \<Rightarrow> path" where
  "Path s = PurePath (path_root s) (path_parts s)"

text \<open>\<open>p / s\<close>: an absolute \<open>s\<close> replaces \<open>p\<close>, a relative one is appended.\<close>

definition path_div :: "path \<Rightarrow> string \<Rightarrow> path" where
  "path_div p s =
     (if path_root s \<noteq> [] then Path s else PurePath (root p) (parts p @ path_parts s))"

definition str_path :: "path \<Rightarrow> string" where
  "str_path p =
     (if root p = [] \<and> parts p = [] then ''.'' else root p @ join ''/'' (parts p))"

section \<open>The module's constants and the function version\<close>

definition IMAGE_PREFIX :: string where
  "IMAGE_PREFIX = ''amazon/aws-lambda-''"

definition RAPID_ENTRYPOINT :: string where
  "RAPID_ENTRYPOINT = ''/var/rapid/init''"

text \<open>\<open>LAMBDA_DOCKERFILE.format(base_img=..., rapid_entrypoint=...)\<close>. The character
  \<open>0x0A\<close> is the line feed.\<close>

definition LAMBDA_DOCKERFILE :: "string \<Rightarrow> string \<Rightarrow> string" where
  "LAMBDA_DOCKERFILE base_img rapid_entrypoint =
     ''FROM '' @ base_img @ [CHR 0x0A]
     @ ''COPY aws-lambda-rie '' @ rapid_entrypoint @ [CHR 0x0A]
     @ ''COPY code/ /var/task'' @ [CHR 0x0A]"

text \<open>
  \<open>FunctionVersion\<close> is declared in \<open>lambda_models\<close>, outside this module. The module
  reads four things of it: \<open>id.qualified_arn()\<close> (also reached through the property
  \<open>qualified_arn\<close>), \<open>config.internal_revision\<close>, \<open>config.runtime\<close> (which may be
  \<open>None\<close>) and \<open>config.code\<close>, a handle whose archive is fetched from storage.
\<close>

record function_version =
  qualified_arn :: string
  internal_revision :: string
  runtime :: "string option"
  code :: nat

text \<open>The two \<open>replace\<close> calls shared by the path and the image name.\<close>

definition sanitize :: "string \<Rightarrow> string" where
  "sanitize arn = replace_char CHR ''$'' CHR ''_'' (replace_char CHR '':'' CHR ''_'' arn)"

text \<open>\<open>tmp\<close> is the value of \<open>tempfile.gettempdir()\<close>.\<close>

definition get_path_for_function :: "string \<Rightarrow> function_version \<Rightarrow> path" where
  "get_path_for_function tmp function_version =
     Path (tmp @ ''/lambda/'' @ sanitize (qualified_arn function_version) @ ''_''
           @ internal_revision function_version @ ''/'')"

definition get_code_path_for_function :: "string \<Rightarrow> function_version \<Rightarrow> path" where
  "get_code_path_for_function tmp function_version =
     path_div (get_path_for_function tmp function_version) ''code''"

definition get_image_name_for_function :: "function_version \<Rightarrow> string" where
  "get_image_name_for_function function_version =
     ''localstack/lambda-'' @ lower (sanitize (qualified_arn function_version))"

text \<open>
  \<open>IMAGE_MAPPING\<close> is a table of \<open>lambda_models\<close> and a parameter here.
  \<open>IMAGE_MAPPING.get(runtime)\<close> is \<open>None\<close> for a missing key, and for the key \<open>None\<close>,
  which a table of strings never has; \<open>not postfix\<close> holds for \<open>None\<close> and for \<open>''\<close>.
\<close>

definition get_image_for_runtime :: "(string \<rightharpoonup> string) \<Rightarrow> string option \<Rightarrow> exn + string" where
  "get_image_for_runtime image_mapping rt =
     (let postfix = (case rt of None \<Rightarrow> None | Some r \<Rightarrow> image_mapping r)
      in if truthy postfix then Inr (IMAGE_PREFIX @ the postfix)
         else Inl (Exn ValueError (''Unsupported runtime '' @ fmt_opt rt @ ''!'')))"

section \<open>The world outside the module\<close>

text \<open>
  Everything the module does to the container runtime, the file system, the executor
  endpoint and the log is a call. A run is the list of the calls made, each with its
  outcome: \<open>None\<close> when the call returned, \<open>Some e\<close> when it raised \<open>e\<close>.
\<close>

type_synonym str_dict = "(string \<times> string) list"

record container_configuration =
  image_name :: string
  name :: string
  env_vars :: str_dict
  network :: string
  entrypoint :: string

datatype level = DEBUG | ERROR | EXCEPTION

text \<open>The arguments of a log call: a string, \<open>str(e)\<close>, \<open>e.strerror\<close>, \<open>e.filename\<close>
  and the elapsed time of \<open>prepare_version\<close>.\<close>

datatype log_arg = Str string | Exc exn | Strerror exn | Filename exn | Elapsed_ms

text \<open>
  The calls, named after what the module calls. The calls of the container client carry
  the arguments the module passes; the endpoint is known by its port;
  \<open>Get_executable_path\<close> is \<open>get_installer().get_executable_path()\<close>;
  \<open>Get_lambda_archive\<close> is \<open>config.code.get_lambda_archive()\<close>; \<open>Mkdir\<close> is
  \<open>mkdir(parents=True, exist_ok=True)\<close>; \<open>Shutil_copy\<close> is \<open>shutil.copy\<close>; \<open>Open_w\<close>, \<open>File_write\<close> and \<open>File_close\<close>
  are the \<open>with docker_file_path.open\<close> block; \<open>NamedTemporaryFile\<close> returns the name of
  the temporary file, which \<open>Tmp_write\<close>, \<open>Tmp_flush\<close> and \<open>Tmp_close\<close> take.
\<close>

datatype call =
    Build_image string string
  | Create_container_from_config container_configuration
  | Copy_into_container string string string
  | Start_container string
  | Get_container_ipv4_for_network string string
  | Stop_container string nat
  | Remove_container string
  | Get_docker_image_names bool
  | Pull_image string
  | Remove_image string
  | Get_free_tcp_port
  | Endpoint_new int nat
  | Endpoint_start int
  | Endpoint_shutdown int
  | Endpoint_invoke int str_dict
  | Get_container_network_for_lambda
  | Get_main_endpoint_from_container
  | Get_executable_path
  | Get_lambda_archive nat
  | Mkdir path
  | Shutil_copy path string
  | Shutil_rmtree path
  | Open_w path
  | File_write path string
  | File_close path
  | NamedTemporaryFile
  | Tmp_write string string
  | Tmp_flush string
  | Tmp_close string
  | Unzip string string
  | Log level string "log_arg list"

type_synonym event = "call \<times> exn option"

text \<open>
  The world decides, from the calls made so far, whether the next call raises and what
  it returns. The configuration flags, the runtime table, the temporary directory and
  the two helpers \<open>json.dumps\<close> and \<open>truncate\<close> (of \<open>localstack.utils.strings\<close>) are
  parameters as well.
\<close>

record world =
  LAMBDA_PREBUILD_IMAGES :: bool
  LAMBDA_TRUNCATE_STDOUT :: int
  IMAGE_MAPPING :: "string \<rightharpoonup> string"
  gettempdir :: string
  isEnabledFor_DEBUG :: bool
  raises :: "event list \<Rightarrow> call \<Rightarrow> exn option"
  returns_str :: "event list \<Rightarrow> call \<Rightarrow> string"
  returns_strs :: "event list \<Rightarrow> call \<Rightarrow> string list"
  returns_int :: "event list \<Rightarrow> call \<Rightarrow> int"
  json_dumps :: "str_dict \<Rightarrow> string"
  strings_truncate :: "string \<Rightarrow> int \<Rightarrow> string"

type_synonym 'a io = "event list \<Rightarrow> event list \<times> (exn + 'a)"

definition io_return :: "'a \<Rightarrow> 'a io" where
  "io_return v tr = (tr, Inr v)"

definition io_raise :: "exn \<Rightarrow> 'a io" where
  "io_raise e tr = (tr, Inl e)"

definition io_lift :: "exn + 'a \<Rightarrow> 'a io" where
  "io_lift r tr = (tr, r)"

definition io_bind :: "'a io \<Rightarrow> ('a \<Rightarrow> 'b io) \<Rightarrow> 'b io" where
  "io_bind m f tr = (case m tr of (tr1, Inl e) \<Rightarrow> (tr1, Inl e) | (tr1, Inr v) \<Rightarrow> f v tr1)"

text \<open>\<open>try: m except C as e: h(e)\<close>\<close>

definition io_catch :: "'a io \<Rightarrow> exn_class \<Rightarrow> (exn \<Rightarrow> 'a io) \<Rightarrow> 'a io" where
  "io_catch m c h tr =
     (case m tr of
        (tr1, Inl e) \<Rightarrow> if isinstance e c then h e tr1 else (tr1, Inl e)
      | (tr1, Inr v) \<Rightarrow> (tr1, Inr v))"

text \<open>\<open>with enter as r: body(r)\<close>: the exit runs on every path out of the body, and an
  exception of the exit replaces the body's.\<close>

definition io_with :: "'r io \<Rightarrow> ('r \<Rightarrow> unit io) \<Rightarrow> ('r \<Rightarrow> 'a io) \<Rightarrow> 'a io" where
  "io_with enter exit body tr =
     (case enter tr of
        (tr1, Inl e) \<Rightarrow> (tr1, Inl e)
      | (tr1, Inr r) \<Rightarrow>
          (case body r tr1 of
             (tr2, res) \<Rightarrow>
               (case exit r tr2 of
                  (tr3, Inl e) \<Rightarrow> (tr3, Inl e)
                | (tr3, Inr u) \<Rightarrow> (tr3, res))))"

definition perform :: "world \<Rightarrow> call \<Rightarrow> unit io" where
  "perform w c tr =
     (case raises w tr c of
        None \<Rightarrow> (tr @ [(c, None)], Inr ())
      | Some e \<Rightarrow> (tr @ [(c, Some e)], Inl e))"

definition perform_str :: "world \<Rightarrow> call \<Rightarrow> string io" where
  "perform_str w c tr =
     (case raises w tr c of
        None \<Rightarrow> (tr @ [(c, None)], Inr (returns_str w tr c))
      | Some e \<Rightarrow> (tr @ [(c, Some e)], Inl e))"

definition perform_strs :: "world \<Rightarrow> call \<Rightarrow> string list io" where
  "perform_strs w c tr =
     (case raises w tr c of
        None \<Rightarrow> (tr @ [(c, None)], Inr (returns_strs w tr c))
      | Some e \<Rightarrow> (tr @ [(c, Some e)], Inl e))"

definition perform_int :: "world \<Rightarrow> call \<Rightarrow> int io" where
  "perform_int w c tr =
     (case raises w tr c of
        None \<Rightarrow> (tr @ [(c, None)], Inr (returns_int w tr c))
      | Some e \<Rightarrow> (tr @ [(c, Some e)], Inl e))"

text \<open>A log call returns: the logging module reports its own failures on the side.\<close>

definition log :: "level \<Rightarrow> string \<Rightarrow> log_arg list \<Rightarrow> unit io" where
  "log lvl fmt args tr = (tr @ [(Log lvl fmt args, None)], Inr ())"

text \<open>
  \<open>shutil.copy(src, dst)\<close> never returns when \<open>src\<close> and \<open>dst\<close> are one path: it raises
  \<open>SameFileError\<close> when the file is there, and whatever the world makes of a missing
  file or a directory otherwise. For two different paths the outcome is the world's.
\<close>

definition same_file_error :: "path \<Rightarrow> string \<Rightarrow> exn" where
  "same_file_error src dst =
     Exn SameFileError
       (''PosixPath('' @ [CHR 0x27] @ str_path src @ [CHR 0x27] @ '') and ''
        @ [CHR 0x27] @ dst @ [CHR 0x27] @ '' are the same file'')"

definition shutil_copy :: "world \<Rightarrow> path \<Rightarrow> string \<Rightarrow> unit io" where
  "shutil_copy w src dst tr =
     (case raises w tr (Shutil_copy src dst) of
        Some e \<Rightarrow> (tr @ [(Shutil_copy src dst, Some e)], Inl e)
      | None \<Rightarrow>
          if Path dst = src
          then (tr @ [(Shutil_copy src dst, Some (same_file_error src dst))],
                Inl (same_file_error src dst))
          else (tr @ [(Shutil_copy src dst, None)], Inr ()))"

text \<open>
  \<open>s.chmod(mode)\<close> for a \<open>str\<close>: a \<open>str\<close> has no attribute \<open>chmod\<close>, so the lookup
  raises \<open>AttributeError\<close> and nothing is called.
\<close>

definition str_chmod :: "string \<Rightarrow> nat \<Rightarrow> unit io" where
  "str_chmod s mode =
     io_raise (Exn AttributeError
       ([CHR 0x27] @ ''str'' @ [CHR 0x27] @ '' object has no attribute ''
        @ [CHR 0x27] @ ''chmod'' @ [CHR 0x27]))"

section \<open>Preparing and cleaning up a function version\<close>

definition get_runtime_client_path :: "world \<Rightarrow> path io" where
  "get_runtime_client_path w =
     io_bind (perform_str w Get_executable_path) (\<lambda>p. io_return (Path p))"

definition custom_images_unsupported :: exn where
  "custom_images_unsupported = Exn NotImplementedError ''Custom images are currently not supported''"

text \<open>
  In \<open>prepare_image\<close> the source of the copy is \<open>Path(get_executable_path())\<close> and the
  target is the \<open>str\<close> that a second \<open>get_executable_path()\<close> returns; \<open>chmod\<close> is then
  called on that \<open>str\<close>.
\<close>

definition prepare_image :: "world \<Rightarrow> path \<Rightarrow> function_version \<Rightarrow> unit io" where
  "prepare_image w target_path function_version =
     (if \<not> truthy (runtime function_version) then io_raise custom_images_unsupported
      else
        io_bind (get_runtime_client_path w) (\<lambda>src_init.
        io_bind (perform_str w Get_executable_path) (\<lambda>target_init.
        io_bind (shutil_copy w src_init target_init) (\<lambda>_.
        io_bind (str_chmod target_init 493) (\<lambda>_.
        let docker_file_path = path_div target_path ''Dockerfile'' in
        io_bind (io_lift (get_image_for_runtime (IMAGE_MAPPING w) (runtime function_version)))
          (\<lambda>base_img.
        let docker_file = LAMBDA_DOCKERFILE base_img RAPID_ENTRYPOINT in
        io_bind (io_with (perform w (Open_w docker_file_path))
                         (\<lambda>_. perform w (File_close docker_file_path))
                         (\<lambda>_. perform w (File_write docker_file_path docker_file))) (\<lambda>_.
        io_catch
          (perform w (Build_image (str_path docker_file_path)
                                  (get_image_name_for_function function_version)))
          Exception
          (\<lambda>e. if isEnabledFor_DEBUG w
                then log EXCEPTION (''Error while building prebuilt lambda image for '' @ [CHR 0x27] @ ''%s'' @ [CHR 0x27])
                       [Str (qualified_arn function_version)]
                else log ERROR (''Error while building prebuilt lambda image for '' @ [CHR 0x27] @ ''%s'' @ [CHR 0x27] @ '', Error: %s'')
                       [Str (qualified_arn function_version), Exc e]))))))))"

definition prepare_version :: "world \<Rightarrow> function_version \<Rightarrow> unit io" where
  "prepare_version w function_version =
     (let target_path = get_path_for_function (gettempdir w) function_version in
      io_bind (perform w (Mkdir target_path)) (\<lambda>_.
      let target_code = get_code_path_for_function (gettempdir w) function_version in
      io_bind (perform w (Mkdir target_code)) (\<lambda>_.
      io_bind (io_with (perform_str w NamedTemporaryFile)
                       (\<lambda>file. perform w (Tmp_close file))
                       (\<lambda>file.
                          io_bind (perform_str w (Get_lambda_archive (code function_version)))
                            (\<lambda>archive.
                          io_bind (perform w (Tmp_write file archive)) (\<lambda>_.
                          io_bind (perform w (Tmp_flush file)) (\<lambda>_.
                          perform w (Unzip file (str_path target_code))))))) (\<lambda>_.
      io_bind (io_lift (get_image_for_runtime (IMAGE_MAPPING w) (runtime function_version)))
        (\<lambda>image_name.
      io_bind (perform_strs w (Get_docker_image_names False)) (\<lambda>names.
      io_bind (if image_name \<notin> set names then perform w (Pull_image image_name)
               else io_return ()) (\<lambda>_.
      io_bind (if LAMBDA_PREBUILD_IMAGES w then prepare_image w target_path function_version
               else io_return ()) (\<lambda>_.
      log DEBUG ''Version preparation took %0.2fms'' [Elapsed_ms]))))))))"

definition cleanup_version :: "world \<Rightarrow> function_version \<Rightarrow> unit io" where
  "cleanup_version w function_version =
     (let function_path = get_path_for_function (gettempdir w) function_version in
      io_bind
        (io_catch (perform w (Shutil_rmtree function_path)) OSError
           (\<lambda>e. log DEBUG ''Could not cleanup function %s due to error %s while deleting file %s''
                  [Str (qualified_arn function_version), Strerror e, Filename e])) (\<lambda>_.
      if LAMBDA_PREBUILD_IMAGES w
      then perform w (Remove_image (get_image_name_for_function function_version))
      else io_return ()))"

section \<open>The executor\<close>

record endpoint =
  port :: int
  service_endpoint :: nat
  container_address :: "string option"

record executor =
  executor_id :: string
  function_version :: function_version
  ip :: "string option"
  executor_endpoint :: endpoint

text \<open>A method of the executor: it may assign to fields of \<open>self\<close>, so it returns the
  executor next to the run and the result.\<close>

type_synonym 'a meth = "executor \<Rightarrow> event list \<Rightarrow> executor \<times> event list \<times> (exn + 'a)"

definition build_executor_endpoint ::
    "world \<Rightarrow> string \<Rightarrow> function_version \<Rightarrow> nat \<Rightarrow> endpoint io" where
  "build_executor_endpoint w self_id fv service =
     io_bind (perform_int w Get_free_tcp_port) (\<lambda>p.
     io_bind (log DEBUG ''Creating service endpoint for function %s executor %s''
                [Str (qualified_arn fv), Str self_id]) (\<lambda>_.
     io_bind (perform w (Endpoint_new p service)) (\<lambda>_.
     io_bind (log DEBUG ''Finished creating service endpoint for function %s executor %s''
                [Str (qualified_arn fv), Str self_id]) (\<lambda>_.
     io_return \<lparr>port = p, service_endpoint = service, container_address = None\<rparr>))))"

text \<open>\<open>__init__\<close>: the base class stores \<open>id\<close> and \<open>function_version\<close>, then \<open>ip\<close> is
  \<open>None\<close> and the endpoint is built.\<close>

definition init :: "world \<Rightarrow> string \<Rightarrow> function_version \<Rightarrow> nat \<Rightarrow> executor io" where
  "init w self_id fv service =
     io_bind (build_executor_endpoint w self_id fv service) (\<lambda>ep.
     io_return \<lparr>executor_id = self_id, function_version = fv, ip = None,
                 executor_endpoint = ep\<rparr>)"

definition get_image :: "world \<Rightarrow> executor \<Rightarrow> exn + string" where
  "get_image w self =
     (if \<not> truthy (runtime (function_version self)) then Inl custom_images_unsupported
      else if LAMBDA_PREBUILD_IMAGES w
        then Inr (get_image_name_for_function (function_version self))
        else get_image_for_runtime (IMAGE_MAPPING w) (runtime (function_version self)))"

definition get_network_for_executor :: "world \<Rightarrow> string io" where
  "get_network_for_executor w = perform_str w Get_container_network_for_lambda"

definition get_endpoint_from_executor :: "world \<Rightarrow> string io" where
  "get_endpoint_from_executor w = perform_str w Get_main_endpoint_from_container"

text \<open>The calls of \<open>start\<close>, up to the address that the last one returns.\<close>

definition start_calls :: "world \<Rightarrow> executor \<Rightarrow> str_dict \<Rightarrow> string io" where
  "start_calls w self env =
     io_bind (perform w (Endpoint_start (port (executor_endpoint self)))) (\<lambda>_.
     io_bind (get_network_for_executor w) (\<lambda>net.
     io_bind (io_lift (get_image w self)) (\<lambda>image.
     let container_config =
           \<lparr>image_name = image, name = executor_id self, env_vars = env, network = net,
            entrypoint = RAPID_ENTRYPOINT\<rparr> in
     io_bind (perform w (Create_container_from_config container_config)) (\<lambda>_.
     io_bind
       (if \<not> LAMBDA_PREBUILD_IMAGES w
        then
          io_bind (get_runtime_client_path w) (\<lambda>client.
          io_bind (perform w (Copy_into_container (executor_id self) (str_path client)
                                RAPID_ENTRYPOINT)) (\<lambda>_.
          perform w (Copy_into_container (executor_id self)
             (str_path (get_code_path_for_function (gettempdir w) (function_version self)) @ ''/.'')
             ''/var/task'')))
        else io_return ()) (\<lambda>_.
     io_bind (perform w (Start_container (executor_id self))) (\<lambda>_.
     perform_str w (Get_container_ipv4_for_network (executor_id self) net)))))))"

text \<open>\<open>start\<close> assigns \<open>self.ip\<close> and the endpoint's \<open>container_address\<close> after its last
  call, so a start that raises leaves the executor as it was.\<close>

definition start :: "world \<Rightarrow> str_dict \<Rightarrow> unit meth" where
  "start w env self tr =
     (case start_calls w self env tr of
        (tr1, Inl e) \<Rightarrow> (self, tr1, Inl e)
      | (tr1, Inr a) \<Rightarrow>
          (self\<lparr>ip := Some a,
                executor_endpoint := (executor_endpoint self)\<lparr>container_address := Some a\<rparr>\<rparr>,
           tr1, Inr ()))"

definition stop_calls :: "world \<Rightarrow> executor \<Rightarrow> unit io" where
  "stop_calls w self =
     io_bind (perform w (Stop_container (executor_id self) 5)) (\<lambda>_.
     io_bind (perform w (Remove_container (executor_id self))) (\<lambda>_.
     io_catch (perform w (Endpoint_shutdown (port (executor_endpoint self)))) Exception
       (\<lambda>e. log DEBUG ''Error while stopping executor endpoint for lambda %s, error: %s''
              [Str (qualified_arn (function_version self)), Exc e])))"

definition stop :: "world \<Rightarrow> unit meth" where
  "stop w self tr = (case stop_calls w self tr of (tr1, r) \<Rightarrow> (self, tr1, r))"

text \<open>The exception of \<open>get_address\<close>, with its message.\<close>

definition address_unknown :: "string \<Rightarrow> exn" where
  "address_unknown self_id =
     Exn LambdaRuntimeException
       (''IP address of executor '' @ [CHR 0x27] @ self_id @ [CHR 0x27] @ '' unknown'')"

definition get_address :: "executor \<Rightarrow> exn + string" where
  "get_address self =
     (if \<not> truthy (ip self) then Inl (address_unknown (executor_id self))
      else Inr (the (ip self)))"

definition invoke_calls :: "world \<Rightarrow> executor \<Rightarrow> str_dict \<Rightarrow> unit io" where
  "invoke_calls w self payload =
     io_bind (log DEBUG (''Sending invoke-payload '' @ [CHR 0x27] @ ''%s'' @ [CHR 0x27] @ '' to executor '' @ [CHR 0x27] @ ''%s'' @ [CHR 0x27])
                [Str (strings_truncate w (json_dumps w payload) (LAMBDA_TRUNCATE_STDOUT w)),
                 Str (executor_id self)]) (\<lambda>_.
     perform w (Endpoint_invoke (port (executor_endpoint self)) payload))"

definition invoke :: "world \<Rightarrow> str_dict \<Rightarrow> unit meth" where
  "invoke w payload self tr = (case invoke_calls w self payload tr of (tr1, r) \<Rightarrow> (self, tr1, r))"

section \<open>Reading a run\<close>

text \<open>The images of the containers a run asked the runtime to create, its copies into a
  container (container, source, target), the payloads it handed to the endpoint, in
  order.\<close>

definition created_images :: "event list \<Rightarrow> string list" where
  "created_images tr =
     concat (map (\<lambda>ev. case fst ev of Create_container_from_config cfg \<Rightarrow> [image_name cfg]
                                     | _ \<Rightarrow> []) tr)"

definition copies :: "event list \<Rightarrow> (string \<times> string \<times> string) list" where
  "copies tr =
     concat (map (\<lambda>ev. case fst ev of Copy_into_container n s d \<Rightarrow> [(n, s, d)] | _ \<Rightarrow> []) tr)"

definition invoked_payloads :: "event list \<Rightarrow> str_dict list" where
  "invoked_payloads tr =
     concat (map (\<lambda>ev. case fst ev of Endpoint_invoke p payload \<Rightarrow> [payload] | _ \<Rightarrow> []) tr)"

text \<open>The image names whose build was attempted, with the outcome of each build.\<close>

definition builds :: "event list \<Rightarrow> (string \<times> exn option) list" where
  "builds tr =
     concat (map (\<lambda>ev. case fst ev of Build_image df nm \<Rightarrow> [(nm, snd ev)] | _ \<Rightarrow> []) tr)"

definition returned :: "event \<Rightarrow> bool" where
  "returned ev = (snd ev = None)"

section \<open>Example inputs\<close>

definition example_version :: function_version where
  "example_version =
     \<lparr>qualified_arn = ''arn:aws:lambda:us-east-1:000000000000:function:hello:$LATEST'',
      internal_revision = ''7'', runtime = Some ''python3.9'', code = 0\<rparr>"

text \<open>The same function version at its next revision.\<close>

definition other_version :: function_version where
  "other_version = example_version\<lparr>internal_revision := ''8''\<rparr>"

definition example_executor :: executor where
  "example_executor =
     \<lparr>executor_id = ''exec-1'', function_version = example_version, ip = None,
      executor_endpoint = \<lparr>port = 4510, service_endpoint = 0, container_address = None\<rparr>\<rparr>"

text \<open>A world in which no call raises; pre-building is off.\<close>

definition example_world :: world where
  "example_world =
     \<lparr>LAMBDA_PREBUILD_IMAGES = False,
      LAMBDA_TRUNCATE_STDOUT = 8,
      IMAGE_MAPPING = [''python3.9'' \<mapsto> ''python:3.9''],
      gettempdir = ''/tmp'',
      isEnabledFor_DEBUG = False,
      raises = (\<lambda>tr c. None),
      returns_str = (\<lambda>tr c. case c of
                        Get_container_network_for_lambda \<Rightarrow> ''bridge''
                      | Get_container_ipv4_for_network n net \<Rightarrow> ''172.17.0.2''
                      | Get_executable_path \<Rightarrow> ''/opt/rie/aws-lambda-rie''
                      | NamedTemporaryFile \<Rightarrow> ''/tmp/tmpq1''
                      | _ \<Rightarrow> []),
      returns_strs = (\<lambda>tr c. []),
      returns_int = (\<lambda>tr c. 4510),
      json_dumps = (\<lambda>d. ''{'' @ join '', '' (map (\<lambda>(k, v). ''\"'' @ k @ ''\": \"'' @ v @ ''\"'') d) @ ''}''),
      strings_truncate = (\<lambda>s n. if n < int (length s) then take (nat n) s @ ''...'' else s)\<rparr>"

text \<open>Worlds in which one kind of call raises.\<close>

definition build_fails :: world where
  "build_fails =
     example_world\<lparr>LAMBDA_PREBUILD_IMAGES := True,
       raises := (\<lambda>tr c. case c of Build_image df nm \<Rightarrow> Some (Exn ContainerException ''build failed'')
                               | _ \<Rightarrow> None)\<rparr>"

definition shutdown_fails :: world where
  "shutdown_fails =
     example_world\<lparr>raises := (\<lambda>tr c. case c of Endpoint_shutdown p \<Rightarrow> Some (Exn RuntimeError ''server gone'')
                                             | _ \<Rightarrow> None)\<rparr>"

definition directory_missing :: world where
  "directory_missing =
     example_world\<lparr>raises := (\<lambda>tr c. case c of Shutil_rmtree p \<Rightarrow> Some (Exn FileNotFoundError ''No such file or directory'')
                                             | _ \<Rightarrow> None)\<rparr>"

definition remove_image_fails :: world where
  "remove_image_fails =
     example_world\<lparr>LAMBDA_PREBUILD_IMAGES := True,
       raises := (\<lambda>tr c. case c of Shutil_rmtree p \<Rightarrow> Some (Exn FileNotFoundError ''No such file or directory'')
                               | Remove_image nm \<Rightarrow> Some (Exn ContainerException ''image is in use'')
                               | _ \<Rightarrow> None)\<rparr>"

definition container_start_fails :: world where
  "container_start_fails =
     example_world\<lparr>raises := (\<lambda>tr c. case c of Start_container n \<Rightarrow> Some (Exn ContainerException ''no such image'')
                                             | _ \<Rightarrow> None)\<rparr>"

definition no_runtime_version :: function_version where
  "no_runtime_version = example_version\<lparr>runtime := None\<rparr>"

section \<open>Specifications of runs\<close>

text \<open>A computation is quiet when it only adds to the run, never asks for an image to be
  built, and, when it returns, every call it made has returned.\<close>

definition quiet :: "'a io \<Rightarrow> bool" where
  "quiet m \<longleftrightarrow>
     (\<forall>tr tr' r. m tr = (tr', r) \<longrightarrow>
        (\<exists>new. tr' = tr @ new \<and> builds new = []
           \<and> ((\<exists>v. r = Inr v) \<longrightarrow> list_all returned new)))"

text \<open>A computation never returns when every run of it ends in an exception.\<close>

definition never_returns :: "'a io \<Rightarrow> bool" where
  "never_returns m \<longleftrightarrow> (\<forall>tr. \<exists>e. snd (m tr) = Inl e)"

text \<open>
  The calls with which a \<open>start\<close> gets as far as a created container, all returning: the
  endpoint is started, the network is resolved, and a container with the executor's id
  is created from the image on that network, with the init binary as its entry point.
\<close>

definition start_prefix :: "world \<Rightarrow> str_dict \<Rightarrow> executor \<Rightarrow> event list \<Rightarrow> string \<Rightarrow> event list" where
  "start_prefix w env self tr img =
     [(Endpoint_start (port (executor_endpoint self)), None),
      (Get_container_network_for_lambda, None),
      (Create_container_from_config
         \<lparr>image_name = img, name = executor_id self, env_vars = env,
          network = returns_str w (tr @ [(Endpoint_start (port (executor_endpoint self)), None)])
                      Get_container_network_for_lambda,
          entrypoint = RAPID_ENTRYPOINT\<rparr>, None)]"

text \<open>
  The copy step, all returning, from the run \<open>tr\<close> at which it begins: the path of the init
  binary is asked for, the init binary is copied from there to the entry point in the
  executor's container, and the content of the staged \<open>code\<close> directory of the executor's
  function version is copied to the task directory in that container.
\<close>

definition start_copies :: "world \<Rightarrow> executor \<Rightarrow> event list \<Rightarrow> event list" where
  "start_copies w self tr =
     [(Get_executable_path, None),
      (Copy_into_container (executor_id self)
         (str_path (Path (returns_str w tr Get_executable_path))) RAPID_ENTRYPOINT, None),
      (Copy_into_container (executor_id self)
         (str_path (get_code_path_for_function (gettempdir w) (function_version self)) @ ''/.'')
         ''/var/task'', None)]"

section \<open>Unfolding the model\<close>

lemmas run_defs =
  start_def start_calls_def stop_def stop_calls_def invoke_def invoke_calls_def init_def
  build_executor_endpoint_def get_network_for_executor_def get_runtime_client_path_def
  get_image_def get_image_for_runtime_def get_address_def address_unknown_def
  prepare_version_def prepare_image_def cleanup_version_def shutil_copy_def str_chmod_def
  io_bind_def io_catch_def io_with_def io_lift_def io_return_def io_raise_def
  perform_def perform_str_def perform_strs_def perform_int_def log_def Let_def

lemmas example_defs =
  example_world_def example_executor_def build_fails_def shutdown_fails_def
  directory_missing_def remove_image_fails_def container_start_fails_def

lemma example_version_simps:
  "qualified_arn example_version
     = ''arn:aws:lambda:us-east-1:000000000000:function:hello:$LATEST''"
  "internal_revision example_version = ''7''"
  "runtime example_version = Some ''python3.9''"
  "code example_version = 0"
  "runtime no_runtime_version = None"
  "qualified_arn no_runtime_version = qualified_arn example_version"
  by (simp_all add: example_version_def no_runtime_version_def)

lemma example_image_name:
  "get_image_name_for_function example_version
     = ''localstack/lambda-arn_aws_lambda_us-east-1_000000000000_function_hello__latest''"
  by code_simp

lemma example_path:
  "get_path_for_function ''/tmp'' example_version
     = PurePath ''/'' [''tmp'', ''lambda'',
         ''arn_aws_lambda_us-east-1_000000000000_function_hello__LATEST_7'']"
  by code_simp

lemma example_code_path:
  "get_code_path_for_function ''/tmp'' example_version
     = PurePath ''/'' [''tmp'', ''lambda'',
         ''arn_aws_lambda_us-east-1_000000000000_function_hello__LATEST_7'', ''code'']"
  by code_simp

lemmas example_simps =
  example_version_simps example_image_name example_path example_code_path

section \<open>Runs of the executor's methods\<close>

lemmas io_defs =
  io_bind_def io_catch_def io_with_def io_lift_def io_return_def io_raise_def
  perform_def perform_str_def perform_strs_def perform_int_def log_def

lemma start_calls_returns:
  assumes "start_calls w self env tr = (tr1, Inr a)"
  shows "\<exists>net image.
       get_image w self = Inr image
     \<and> tr1 = tr @ start_prefix w env self tr image
                @ (if LAMBDA_PREBUILD_IMAGES w then []
                   else start_copies w self (tr @ start_prefix w env self tr image))
                @ [(Start_container (executor_id self), None),
                   (Get_container_ipv4_for_network (executor_id self) net, None)]
     \<and> last tr1 = (Get_container_ipv4_for_network (executor_id self) net, None)
     \<and> a = returns_str w (butlast tr1) (Get_container_ipv4_for_network (executor_id self) net)"
  using assms
  apply (simp add: start_calls_def io_defs get_network_for_executor_def
      get_runtime_client_path_def Let_def
      split: option.splits sum.splits prod.splits if_splits)
   apply (auto simp: start_prefix_def start_copies_def butlast_append)
  done

lemma start_calls_runs:
  assumes "start_calls w self env tr = (tr1, r)"
  shows "\<exists>new.
       tr1 = tr @ new
     \<and> (created_images new = [] \<or> map Inr (created_images new) = [get_image w self])
     \<and> (LAMBDA_PREBUILD_IMAGES w \<longrightarrow> copies new = [])
     \<and> (\<not> LAMBDA_PREBUILD_IMAGES w \<longrightarrow>
          (\<forall>out. (Start_container (executor_id self), out) \<in> set new \<longrightarrow>
             (\<exists>image rest. get_image w self = Inr image
                \<and> new = start_prefix w env self tr image
                        @ start_copies w self (tr @ start_prefix w env self tr image)
                        @ (Start_container (executor_id self), out) # rest
                \<and> copies rest = [])))"
  using assms
  apply (simp add: start_calls_def io_defs get_network_for_executor_def
      get_runtime_client_path_def Let_def
      split: option.splits sum.splits prod.splits if_splits)
   apply (auto simp: created_images_def copies_def start_prefix_def start_copies_def)
  done


lemma start_returns_ip:
  assumes "start w env self tr = (self', tr', Inr u)"
  shows "\<exists>a. start_calls w self env tr = (tr', Inr a) \<and> ip self' = Some a
            \<and> executor_id self' = executor_id self
            \<and> function_version self' = function_version self
            \<and> container_address (executor_endpoint self') = Some a"
  using assms by (auto simp: start_def split: prod.splits sum.splits)

lemma stop_self: "stop w self tr = (self', tr', r) \<Longrightarrow> self' = self"
  by (auto simp: stop_def split: prod.splits)

lemma invoke_self: "invoke w payload self tr = (self', tr', r) \<Longrightarrow> self' = self"
  by (auto simp: invoke_def split: prod.splits)


lemma example_prepare_run:
  "prepare_version build_fails example_version []
     = ([(Mkdir (get_path_for_function ''/tmp'' example_version), None),
         (Mkdir (get_code_path_for_function ''/tmp'' example_version), None),
         (NamedTemporaryFile, None), (Get_lambda_archive 0, None),
         (Tmp_write ''/tmp/tmpq1'' [], None), (Tmp_flush ''/tmp/tmpq1'', None),
         (Unzip ''/tmp/tmpq1'' (str_path (get_code_path_for_function ''/tmp'' example_version)), None),
         (Tmp_close ''/tmp/tmpq1'', None), (Get_docker_image_names False, None),
         (Pull_image ''amazon/aws-lambda-python:3.9'', None),
         (Get_executable_path, None), (Get_executable_path, None),
         (Shutil_copy (Path ''/opt/rie/aws-lambda-rie'') ''/opt/rie/aws-lambda-rie'',
          Some (same_file_error (Path ''/opt/rie/aws-lambda-rie'') ''/opt/rie/aws-lambda-rie''))],
        Inl (same_file_error (Path ''/opt/rie/aws-lambda-rie'') ''/opt/rie/aws-lambda-rie''))"
  by (simp add: prepare_version_def prepare_image_def get_runtime_client_path_def
      get_image_for_runtime_def shutil_copy_def io_defs Let_def build_fails_def
      example_world_def example_version_simps IMAGE_PREFIX_def)

section \<open>Derived paths and image names\<close>

lemma split_on_not_Nil: "split_on c s \<noteq> []"
  by (induction s) (auto split: list.splits)

lemma split_on_sep: "split_on c (a @ c # b) = split_on c a @ split_on c b"
proof (induction a)
  case Nil
  show ?case by simp
next
  case (Cons x a)
  obtain p ps where "split_on c a = p # ps"
    using split_on_not_Nil [of c a] by (cases "split_on c a") auto
  with Cons show ?case by simp
qed

lemma split_on_no_sep: "c \<notin> set s \<Longrightarrow> split_on c s = [s]"
  by (induction s) auto

lemma path_parts_staged:
  assumes "CHR ''/'' \<notin> set x" and "x \<noteq> []" and "x \<noteq> ''.''"
  shows "path_parts (tmp @ ''/lambda/'' @ x @ ''/'') = path_parts tmp @ [''lambda'', x]"
proof -
  have "tmp @ ''/lambda/'' @ x @ ''/'' = tmp @ CHR ''/'' # (''lambda'' @ CHR ''/'' # (x @ CHR ''/'' # []))"
    by simp
  then have "split_on CHR ''/'' (tmp @ ''/lambda/'' @ x @ ''/'')
      = split_on CHR ''/'' tmp @ split_on CHR ''/'' ''lambda'' @ split_on CHR ''/'' x
        @ split_on CHR ''/'' []"
    by (simp only: split_on_sep)
  also have "\<dots> = split_on CHR ''/'' tmp @ [''lambda'', x, []]"
    using assms(1) by (simp add: split_on_no_sep)
  finally show ?thesis using assms(2,3) by (simp add: path_parts_def)
qed

lemma set_sanitize: "set (sanitize a) \<subseteq> insert CHR ''_'' (set a)"
  by (auto simp: sanitize_def replace_char_def)

lemma sanitize_no_delimiter:
  "CHR '':'' \<notin> set (sanitize a)" "CHR ''$'' \<notin> set (sanitize a)"
  by (auto simp: sanitize_def replace_char_def)

lemma sanitize_inj:
  assumes "sanitize a = sanitize b"
      and "CHR ''_'' \<notin> set a \<union> set b" and "CHR ''$'' \<notin> set a \<union> set b"
  shows "a = b"
  using assms
proof (induction a arbitrary: b)
  case Nil
  then show ?case by (simp add: sanitize_def replace_char_def)
next
  case (Cons x a)
  then obtain y b' where b: "b = y # b'"
    by (cases b) (auto simp: sanitize_def replace_char_def)
  with Cons.prems have "sanitize a = sanitize b'" and xy: "x = y"
    by (auto simp: sanitize_def replace_char_def split: if_splits)
  with Cons.IH [of b'] Cons.prems b show ?case by auto
qed

lemma suffix_after_last_underscore:
  assumes "a @ CHR ''_'' # r = b @ CHR ''_'' # s"
      and "CHR ''_'' \<notin> set r" and "CHR ''_'' \<notin> set s"
  shows "a = b \<and> r = s"
proof -
  from assms(1) have "rev r @ CHR ''_'' # rev a = rev s @ CHR ''_'' # rev b"
    by (metis rev.simps(2) rev_append append_assoc append_Cons append_Nil)
  then have "takeWhile (\<lambda>c. c \<noteq> CHR ''_'') (rev r @ CHR ''_'' # rev a)
           = takeWhile (\<lambda>c. c \<noteq> CHR ''_'') (rev s @ CHR ''_'' # rev b)"
    by simp
  moreover have "takeWhile (\<lambda>c. c \<noteq> CHR ''_'') (rev r @ CHR ''_'' # rev a) = rev r"
    using assms(2) by (auto simp: takeWhile_tail)
  moreover have "takeWhile (\<lambda>c. c \<noteq> CHR ''_'') (rev s @ CHR ''_'' # rev b) = rev s"
    using assms(3) by (auto simp: takeWhile_tail)
  ultimately have "r = s" by simp
  with assms(1) show ?thesis by simp
qed

lemma lower_char_delimiter:
  "lower_char c = CHR '':'' \<Longrightarrow> c = CHR '':''" "lower_char c = CHR ''$'' \<Longrightarrow> c = CHR ''$''"
  by (auto simp: lower_char_def split: if_splits)

lemma image_name_no_delimiter:
  "CHR '':'' \<notin> set (get_image_name_for_function fv)"
  "CHR ''$'' \<notin> set (get_image_name_for_function fv)"
  using sanitize_no_delimiter [of "qualified_arn fv"]
  by (auto simp: get_image_name_for_function_def lower_def
      dest: lower_char_delimiter [OF sym])

text \<open>
  C2, as the code has it. The derived path and the derived image name are functions of
  the identity and the revision, and no \<open>:\<close> or \<open>$\<close> of the identity is left in them.
  For identities and revisions without \<open>/\<close> and revisions without \<open>_\<close>, two versions
  have the same path exactly when their revisions are equal and their identities are
  equal once \<open>:\<close> and \<open>$\<close> are replaced by \<open>_\<close>; so the path is injective on identities
  in which neither \<open>_\<close> nor \<open>$\<close> occurs. The image name does not depend on the revision:
  two versions have the same image name exactly when their identities are equal once
  the delimiters are replaced and the letters are lower-cased.
\<close>

theorem derived_names_collide_exactly:
  assumes "CHR ''/'' \<notin> set (qualified_arn fv1) \<union> set (internal_revision fv1)"
      and "CHR ''/'' \<notin> set (qualified_arn fv2) \<union> set (internal_revision fv2)"
      and "CHR ''_'' \<notin> set (internal_revision fv1) \<union> set (internal_revision fv2)"
  shows "(get_path_for_function tmp fv1 = get_path_for_function tmp fv2 \<longleftrightarrow>
            sanitize (qualified_arn fv1) = sanitize (qualified_arn fv2)
          \<and> internal_revision fv1 = internal_revision fv2)
     \<and> (get_image_name_for_function fv1 = get_image_name_for_function fv2 \<longleftrightarrow>
            lower (sanitize (qualified_arn fv1)) = lower (sanitize (qualified_arn fv2)))
     \<and> CHR '':'' \<notin> set (sanitize (qualified_arn fv1))
     \<and> CHR ''$'' \<notin> set (sanitize (qualified_arn fv1))
     \<and> CHR '':'' \<notin> set (get_image_name_for_function fv1)
     \<and> CHR ''$'' \<notin> set (get_image_name_for_function fv1)
     \<and> (CHR ''_'' \<notin> set (qualified_arn fv1) \<union> set (qualified_arn fv2)
          \<and> CHR ''$'' \<notin> set (qualified_arn fv1) \<union> set (qualified_arn fv2)
          \<and> get_path_for_function tmp fv1 = get_path_for_function tmp fv2 \<longrightarrow>
            qualified_arn fv1 = qualified_arn fv2
          \<and> internal_revision fv1 = internal_revision fv2)"
proof -
  define x1 where "x1 = sanitize (qualified_arn fv1) @ CHR ''_'' # internal_revision fv1"
  define x2 where "x2 = sanitize (qualified_arn fv2) @ CHR ''_'' # internal_revision fv2"
  have x1: "CHR ''/'' \<notin> set x1" "x1 \<noteq> []" "x1 \<noteq> ''.''"
    using assms(1) set_sanitize [of "qualified_arn fv1"]
    by (auto simp: x1_def append_eq_Cons_conv)
  have x2: "CHR ''/'' \<notin> set x2" "x2 \<noteq> []" "x2 \<noteq> ''.''"
    using assms(2) set_sanitize [of "qualified_arn fv2"]
    by (auto simp: x2_def append_eq_Cons_conv)
  have p1: "get_path_for_function tmp fv1
              = PurePath (path_root (tmp @ ''/lambda/'' @ x1 @ ''/'')) (path_parts tmp @ [''lambda'', x1])"
    using path_parts_staged [OF x1, of tmp]
    by (simp add: get_path_for_function_def Path_def x1_def)
  have p2: "get_path_for_function tmp fv2
              = PurePath (path_root (tmp @ ''/lambda/'' @ x2 @ ''/'')) (path_parts tmp @ [''lambda'', x2])"
    using path_parts_staged [OF x2, of tmp]
    by (simp add: get_path_for_function_def Path_def x2_def)
  have path: "get_path_for_function tmp fv1 = get_path_for_function tmp fv2 \<longleftrightarrow>
            sanitize (qualified_arn fv1) = sanitize (qualified_arn fv2)
          \<and> internal_revision fv1 = internal_revision fv2"
  proof
    assume "get_path_for_function tmp fv1 = get_path_for_function tmp fv2"
    with p1 p2 have "x1 = x2" by simp
    then show "sanitize (qualified_arn fv1) = sanitize (qualified_arn fv2)
          \<and> internal_revision fv1 = internal_revision fv2"
      unfolding x1_def x2_def using assms(3)
      by (intro suffix_after_last_underscore) auto
  next
    assume "sanitize (qualified_arn fv1) = sanitize (qualified_arn fv2)
          \<and> internal_revision fv1 = internal_revision fv2"
    then show "get_path_for_function tmp fv1 = get_path_for_function tmp fv2"
      by (simp add: get_path_for_function_def)
  qed
  have image: "get_image_name_for_function fv1 = get_image_name_for_function fv2 \<longleftrightarrow>
            lower (sanitize (qualified_arn fv1)) = lower (sanitize (qualified_arn fv2))"
    by (simp add: get_image_name_for_function_def)
  have inj: "qualified_arn fv1 = qualified_arn fv2 \<and> internal_revision fv1 = internal_revision fv2"
    if "CHR ''_'' \<notin> set (qualified_arn fv1) \<union> set (qualified_arn fv2)"
      and "CHR ''$'' \<notin> set (qualified_arn fv1) \<union> set (qualified_arn fv2)"
      and "get_path_for_function tmp fv1 = get_path_for_function tmp fv2"
    using that path sanitize_inj [of "qualified_arn fv1" "qualified_arn fv2"] by blast
  from path image inj sanitize_no_delimiter [of "qualified_arn fv1"]
    image_name_no_delimiter [of fv1]
  show ?thesis by blast
qed

theorem derived_names_collide_exactly_witness:
  "CHR ''/'' \<notin> set (qualified_arn example_version) \<union> set (internal_revision example_version)
   \<and> CHR ''/'' \<notin> set (qualified_arn other_version) \<union> set (internal_revision other_version)
   \<and> CHR ''_'' \<notin> set (internal_revision example_version) \<union> set (internal_revision other_version)
   \<and> sanitize (qualified_arn example_version) = sanitize (qualified_arn other_version)
   \<and> internal_revision example_version \<noteq> internal_revision other_version
   \<and> get_path_for_function ''/tmp'' example_version \<noteq> get_path_for_function ''/tmp'' other_version
   \<and> get_path_for_function ''/tmp'' example_version = get_path_for_function ''/tmp'' example_version
   \<and> get_image_name_for_function example_version = get_image_name_for_function other_version"
  using derived_names_collide_exactly
          [where ?fv1.0 = example_version and ?fv2.0 = other_version and tmp = "''/tmp''"]
        derived_names_collide_exactly
          [where ?fv1.0 = example_version and ?fv2.0 = example_version and tmp = "''/tmp''"]
  by (simp add: example_version_simps other_version_def)

text \<open>
  C2, as the spec has it, fails for the image name: the two versions below have the same
  identity and different revisions, so they are distinct pairs, and they are given the
  same image name.
\<close>

theorem image_name_ignores_revision_counterexample:
  "(qualified_arn example_version, internal_revision example_version)
     \<noteq> (qualified_arn other_version, internal_revision other_version)
   \<and> get_image_name_for_function example_version = get_image_name_for_function other_version"
  by (simp add: example_version_simps other_version_def get_image_name_for_function_def)

section \<open>The image resolver\<close>

text \<open>
  C7. The image resolver is a function of the runtime identifier and the table alone:
  for a runtime with an entry in the table (an image postfix, which is not empty) it
  returns the image prefix followed by the postfix, and for a runtime with no entry it
  fails with the error for an unsupported runtime, a \<open>ValueError\<close>.
\<close>

theorem get_image_for_runtime_resolves:
  "(image_mapping r = Some postfix \<and> postfix \<noteq> [] \<longrightarrow>
      get_image_for_runtime image_mapping (Some r) = Inr (IMAGE_PREFIX @ postfix))
   \<and> (image_mapping r = None \<longrightarrow>
      get_image_for_runtime image_mapping (Some r)
        = Inl (Exn ValueError (''Unsupported runtime '' @ r @ ''!'')))"
  by (simp add: get_image_for_runtime_def)

theorem get_image_for_runtime_resolves_witness:
  "[''nodejs18.x'' \<mapsto> ''nodejs:18''] ''nodejs18.x'' = Some ''nodejs:18''
   \<and> ''nodejs:18'' \<noteq> []
   \<and> get_image_for_runtime [''nodejs18.x'' \<mapsto> ''nodejs:18''] (Some ''nodejs18.x'')
       = Inr ''amazon/aws-lambda-nodejs:18''
   \<and> [''nodejs18.x'' \<mapsto> ''nodejs:18''] ''unsupported-rt'' = None
   \<and> get_image_for_runtime [''nodejs18.x'' \<mapsto> ''nodejs:18''] (Some ''unsupported-rt'')
       = Inl (Exn ValueError ''Unsupported runtime unsupported-rt!'')"
  using get_image_for_runtime_resolves
          [of "[''nodejs18.x'' \<mapsto> ''nodejs:18'']" "''nodejs18.x''" "''nodejs:18''"]
        get_image_for_runtime_resolves
          [of "[''nodejs18.x'' \<mapsto> ''nodejs:18'']" "''unsupported-rt''" "''''"]
  by (simp add: IMAGE_PREFIX_def)

section \<open>Preparing a version\<close>

lemma builds_append: "builds (xs @ ys) = builds xs @ builds ys"
  by (simp add: builds_def)

lemma builds_empty_no_build: "builds new = [] \<Longrightarrow> (Build_image df nm, out) \<notin> set new"
  by (induction new) (auto simp: builds_def split: call.splits)

lemma quietD:
  assumes "quiet m" and "m tr = (tr', r)"
  obtains new where "tr' = tr @ new" and "builds new = []"
    and "\<And>v. r = Inr v \<Longrightarrow> list_all returned new"
proof -
  from assms have "\<exists>new. tr' = tr @ new \<and> builds new = []
           \<and> ((\<exists>v. r = Inr v) \<longrightarrow> list_all returned new)"
    unfolding quiet_def by (elim allE [where x = tr] allE [where x = tr'] allE [where x = r]) simp
  then show thesis using that by (elim exE conjE) blast
qed

lemma quiet_return: "quiet (io_return v)"
  by (simp add: quiet_def io_return_def builds_def)

lemma quiet_lift: "quiet (io_lift r)"
  by (simp add: quiet_def io_lift_def builds_def)

lemma quiet_log: "quiet (log lvl fmt args)"
  by (auto simp: quiet_def log_def builds_def returned_def)

lemma quiet_perform:
  assumes "\<And>out. builds [(c, out)] = []"
  shows "quiet (perform w c)" and "quiet (perform_str w c)" and "quiet (perform_strs w c)"
  using assms
  by (auto simp: quiet_def perform_def perform_str_def perform_strs_def returned_def
      split: option.splits)

lemma quiet_bind:
  assumes "quiet m" and "\<And>v. quiet (f v)"
  shows "quiet (io_bind m f)"
  unfolding quiet_def
proof (intro allI impI)
  fix tr tr' r
  assume run: "io_bind m f tr = (tr', r)"
  obtain tr1 r1 where m: "m tr = (tr1, r1)" by (cases "m tr")
  from quietD [OF assms(1) this] obtain new1 where n1: "tr1 = tr @ new1" "builds new1 = []"
      "\<And>v. r1 = Inr v \<Longrightarrow> list_all returned new1"
    by blast
  show "\<exists>new. tr' = tr @ new \<and> builds new = [] \<and> ((\<exists>v. r = Inr v) \<longrightarrow> list_all returned new)"
  proof (cases r1)
    case (Inl e)
    with run m have "tr' = tr1" "r = Inl e" by (simp_all add: io_bind_def)
    with n1 show ?thesis by auto
  next
    case (Inr v)
    with run m have "f v tr1 = (tr', r)" by (simp add: io_bind_def)
    from quietD [OF assms(2) this] obtain new2 where n2: "tr' = tr1 @ new2" "builds new2 = []"
        "\<And>v. r = Inr v \<Longrightarrow> list_all returned new2"
      by blast
    from n1 n2 Inr have "tr' = tr @ (new1 @ new2)" "builds (new1 @ new2) = []"
        "(\<exists>v. r = Inr v) \<longrightarrow> list_all returned (new1 @ new2)"
      by (auto simp: builds_append)
    then show ?thesis by blast
  qed
qed

lemma quiet_with:
  assumes "quiet enter" and "\<And>x. quiet (exit x)" and "\<And>x. quiet (body x)"
  shows "quiet (io_with enter exit body)"
  unfolding quiet_def
proof (intro allI impI)
  fix tr tr' r
  assume run: "io_with enter exit body tr = (tr', r)"
  obtain tr1 r1 where en: "enter tr = (tr1, r1)" by (cases "enter tr")
  from quietD [OF assms(1) this] obtain new1 where n1: "tr1 = tr @ new1" "builds new1 = []"
      "\<And>v. r1 = Inr v \<Longrightarrow> list_all returned new1"
    by blast
  show "\<exists>new. tr' = tr @ new \<and> builds new = [] \<and> ((\<exists>v. r = Inr v) \<longrightarrow> list_all returned new)"
  proof (cases r1)
    case (Inl e)
    with run en have "tr' = tr1" "r = Inl e" by (simp_all add: io_with_def)
    with n1 show ?thesis by auto
  next
    case (Inr x)
    obtain tr2 r2 where bo: "body x tr1 = (tr2, r2)" by (cases "body x tr1")
    from quietD [OF assms(3) this] obtain new2 where n2: "tr2 = tr1 @ new2" "builds new2 = []"
        "\<And>v. r2 = Inr v \<Longrightarrow> list_all returned new2"
      by blast
    obtain tr3 r3 where ex: "exit x tr2 = (tr3, r3)" by (cases "exit x tr2")
    from quietD [OF assms(2) this] obtain new3 where n3: "tr3 = tr2 @ new3" "builds new3 = []"
        "\<And>v. r3 = Inr v \<Longrightarrow> list_all returned new3"
      by blast
    from run en Inr bo ex have res: "tr' = tr3" "r = (case r3 of Inl e \<Rightarrow> Inl e | Inr u \<Rightarrow> r2)"
      by (simp_all add: io_with_def split: sum.splits)
    from res n1 n2 n3 Inr have "tr' = tr @ (new1 @ new2 @ new3)"
        "builds (new1 @ new2 @ new3) = []"
        "(\<exists>v. r = Inr v) \<longrightarrow> list_all returned (new1 @ new2 @ new3)"
      by (auto simp: builds_append split: sum.splits)
    then show ?thesis by blast
  qed
qed

lemma quiet_if: "quiet m \<Longrightarrow> quiet n \<Longrightarrow> quiet (if b then m else n)"
  by simp

lemma quiet_raise: "quiet (io_raise e)"
  by (simp add: quiet_def io_raise_def builds_def)

lemma quiet_get_runtime_client_path: "quiet (get_runtime_client_path w)"
  unfolding get_runtime_client_path_def
  by (intro quiet_bind quiet_perform quiet_return) (simp add: builds_def)

lemma quiet_shutil_copy: "quiet (shutil_copy w src dst)"
  by (auto simp: quiet_def shutil_copy_def builds_def returned_def split: option.splits)

lemma never_returns_raise: "never_returns (io_raise e)"
  by (simp add: never_returns_def io_raise_def)

lemma never_returns_bind_left:
  assumes "never_returns m"
  shows "never_returns (io_bind m f)"
  unfolding never_returns_def
proof
  fix tr
  from assms obtain e where "snd (m tr) = Inl e"
    unfolding never_returns_def by blast
  then have "snd (io_bind m f tr) = Inl e"
    by (cases "m tr") (simp add: io_bind_def)
  then show "\<exists>e. snd (io_bind m f tr) = Inl e" ..
qed

lemma never_returns_bind_right:
  assumes "\<And>v. never_returns (f v)"
  shows "never_returns (io_bind m f)"
  unfolding never_returns_def
proof
  fix tr
  obtain tr1 r1 where m: "m tr = (tr1, r1)" by (cases "m tr")
  show "\<exists>e. snd (io_bind m f tr) = Inl e"
  proof (cases r1)
    case (Inl e)
    with m show ?thesis by (simp add: io_bind_def)
  next
    case (Inr v)
    from assms [of v] obtain e where "snd (f v tr1) = Inl e"
      unfolding never_returns_def by blast
    with m Inr show ?thesis by (simp add: io_bind_def)
  qed
qed

lemma quiet_bind_never:
  assumes "quiet m" and "never_returns m"
  shows "quiet (io_bind m f)"
  unfolding quiet_def
proof (intro allI impI)
  fix tr tr' r
  assume run: "io_bind m f tr = (tr', r)"
  obtain tr1 r1 where m: "m tr = (tr1, r1)" by (cases "m tr")
  from assms(2) obtain e where "snd (m tr) = Inl e"
    unfolding never_returns_def by blast
  with m have r1: "r1 = Inl e" by simp
  with run m have res: "tr' = tr1" "r = Inl e" by (simp_all add: io_bind_def)
  from quietD [OF assms(1) m] obtain new where "tr1 = tr @ new" "builds new = []"
    by blast
  with res show "\<exists>new. tr' = tr @ new \<and> builds new = []
           \<and> ((\<exists>v. r = Inr v) \<longrightarrow> list_all returned new)"
    by auto
qed

lemma prepare_image_runs:
  shows quiet_prepare_image: "quiet (prepare_image w p fv)"
    and never_returns_prepare_image: "never_returns (prepare_image w p fv)"
proof -
  have chmod_quiet: "quiet (io_bind (str_chmod t m) f)" for t m and f :: "unit \<Rightarrow> unit io"
    by (rule quiet_bind_never) (simp_all add: str_chmod_def quiet_raise never_returns_raise)
  have chmod_never: "never_returns (io_bind (str_chmod t m) f)" for t m and f :: "unit \<Rightarrow> unit io"
    by (rule never_returns_bind_left) (simp add: str_chmod_def never_returns_raise)
  show "quiet (prepare_image w p fv)"
  proof (cases "truthy (runtime fv)")
    case False
    then show ?thesis by (simp add: prepare_image_def quiet_raise)
  next
    case True
    then show ?thesis
      unfolding prepare_image_def
      by (simp only: if_False not_True_eq_False)
         (intro chmod_quiet quiet_bind quiet_get_runtime_client_path quiet_shutil_copy
            quiet_perform, simp_all add: builds_def)
  qed
  show "never_returns (prepare_image w p fv)"
  proof (cases "truthy (runtime fv)")
    case False
    then show ?thesis by (simp add: prepare_image_def never_returns_raise)
  next
    case True
    then show ?thesis
      unfolding prepare_image_def
      by (simp only: if_False not_True_eq_False) (intro chmod_never never_returns_bind_right)
  qed
qed

lemma quiet_prepare_version: "quiet (prepare_version w fv)"
proof -
  have branch: "quiet (if b then m else io_return ())" if "quiet m" for b and m :: "unit io"
    using that by (cases b) (simp_all add: quiet_return)
  show ?thesis
    unfolding prepare_version_def Let_def
    by (intro quiet_bind quiet_with quiet_perform quiet_lift quiet_log branch
          quiet_prepare_image)
       (simp_all add: builds_def)
qed

lemma never_returns_prepare_version:
  assumes "LAMBDA_PREBUILD_IMAGES w"
  shows "never_returns (prepare_version w fv)"
proof -
  have prebuild: "never_returns (io_bind (prepare_image w p fv) f)" for p and f :: "unit \<Rightarrow> unit io"
    by (rule never_returns_bind_left) (rule never_returns_prepare_image)
  from assms show ?thesis
    unfolding prepare_version_def Let_def
    by (simp only: if_True) (intro prebuild never_returns_bind_right)
qed

text \<open>
  C5, as the code has it. The pre-build step never gets as far as the build of the
  image: \<open>prepare_image\<close> always ends in an exception and never calls \<open>build_image\<close>,
  because the init binary is copied onto itself and \<open>chmod\<close> is called on a \<open>str\<close>. No
  \<open>try\<close> encloses those steps, so with pre-building enabled every run of
  \<open>prepare_version\<close> ends in an exception, and none attempts a build.
\<close>

theorem prepare_version_prebuild_raises:
  "(\<exists>new e. prepare_image w p fv tr = (tr @ new, Inl e) \<and> builds new = [])
   \<and> (LAMBDA_PREBUILD_IMAGES w \<longrightarrow>
        (\<exists>new e. prepare_version w fv tr = (tr @ new, Inl e) \<and> builds new = []))"
proof (intro conjI impI)
  obtain tr1 r1 where run: "prepare_image w p fv tr = (tr1, r1)"
    by (cases "prepare_image w p fv tr")
  from quietD [OF quiet_prepare_image run] obtain new where
    "tr1 = tr @ new" "builds new = []"
    by blast
  moreover from never_returns_prepare_image [of w p fv] run obtain e where "r1 = Inl e"
    unfolding never_returns_def by (metis snd_conv)
  ultimately show "\<exists>new e. prepare_image w p fv tr = (tr @ new, Inl e) \<and> builds new = []"
    using run by blast
next
  assume flag: "LAMBDA_PREBUILD_IMAGES w"
  obtain tr1 r1 where run: "prepare_version w fv tr = (tr1, r1)"
    by (cases "prepare_version w fv tr")
  from quietD [OF quiet_prepare_version run] obtain new where
    "tr1 = tr @ new" "builds new = []"
    by blast
  moreover from never_returns_prepare_version [OF flag, of fv] run obtain e where "r1 = Inl e"
    unfolding never_returns_def by (metis snd_conv)
  ultimately show "\<exists>new e. prepare_version w fv tr = (tr @ new, Inl e) \<and> builds new = []"
    using run by blast
qed

theorem prepare_version_prebuild_raises_witness:
  "LAMBDA_PREBUILD_IMAGES build_fails
   \<and> raises build_fails []
        (Build_image
           (str_path (path_div (get_path_for_function ''/tmp'' example_version) ''Dockerfile''))
           (get_image_name_for_function example_version))
       = Some (Exn ContainerException ''build failed'')
   \<and> snd (prepare_version build_fails example_version [])
       = Inl (same_file_error (Path ''/opt/rie/aws-lambda-rie'') ''/opt/rie/aws-lambda-rie'')
   \<and> builds (fst (prepare_version build_fails example_version [])) = []
   \<and> prepare_image build_fails (get_path_for_function ''/tmp'' example_version) example_version []
       = ([(Get_executable_path, None), (Get_executable_path, None),
           (Shutil_copy (Path ''/opt/rie/aws-lambda-rie'') ''/opt/rie/aws-lambda-rie'',
            Some (same_file_error (Path ''/opt/rie/aws-lambda-rie'') ''/opt/rie/aws-lambda-rie''))],
          Inl (same_file_error (Path ''/opt/rie/aws-lambda-rie'') ''/opt/rie/aws-lambda-rie''))"
  using prepare_version_prebuild_raises
          [where w = build_fails and fv = example_version and tr = "[]"
             and p = "get_path_for_function ''/tmp'' example_version"]
  by (simp add: example_prepare_run builds_def)
     (simp add: prepare_image_def get_runtime_client_path_def shutil_copy_def io_defs
        build_fails_def example_world_def example_version_simps)

section \<open>Cleaning up a version\<close>

text \<open>
  C6. \<open>cleanup_version\<close> swallows an \<open>OSError\<close> of the recursive removal of the staged
  directory (a missing directory is one, \<open>FileNotFoundError\<close>): it logs one debug line
  and goes on, so with pre-building off it returns normally, and with pre-building on it
  returns normally when the removal of the derived image does. An exception of the
  removal of the derived image is not caught: it is what \<open>cleanup_version\<close> raises.
\<close>

theorem cleanup_version_errors:
  "(raises w tr (Shutil_rmtree (get_path_for_function (gettempdir w) fv)) = Some e
      \<and> isinstance e OSError \<longrightarrow>
      (\<exists>tr1. tr1 = tr @ [(Shutil_rmtree (get_path_for_function (gettempdir w) fv), Some e),
                         (Log DEBUG ''Could not cleanup function %s due to error %s while deleting file %s''
                            [Str (qualified_arn fv), Strerror e, Filename e], None)]
         \<and> (\<not> LAMBDA_PREBUILD_IMAGES w \<longrightarrow> cleanup_version w fv tr = (tr1, Inr ()))
         \<and> (LAMBDA_PREBUILD_IMAGES w
              \<and> raises w tr1 (Remove_image (get_image_name_for_function fv)) = None \<longrightarrow>
              snd (cleanup_version w fv tr) = Inr ())
         \<and> (LAMBDA_PREBUILD_IMAGES w
              \<and> raises w tr1 (Remove_image (get_image_name_for_function fv)) = Some e' \<longrightarrow>
              snd (cleanup_version w fv tr) = Inl e')))
   \<and> (LAMBDA_PREBUILD_IMAGES w
        \<and> raises w tr (Shutil_rmtree (get_path_for_function (gettempdir w) fv)) = None
        \<and> raises w (tr @ [(Shutil_rmtree (get_path_for_function (gettempdir w) fv), None)])
             (Remove_image (get_image_name_for_function fv)) = Some e' \<longrightarrow>
        snd (cleanup_version w fv tr) = Inl e')"
  by (simp add: cleanup_version_def io_defs Let_def)

theorem cleanup_version_errors_witness:
  "raises directory_missing []
      (Shutil_rmtree (get_path_for_function (gettempdir directory_missing) example_version))
     = Some (Exn FileNotFoundError ''No such file or directory'')
   \<and> isinstance (Exn FileNotFoundError ''No such file or directory'') OSError
   \<and> \<not> LAMBDA_PREBUILD_IMAGES directory_missing
   \<and> snd (cleanup_version directory_missing example_version []) = Inr ()
   \<and> LAMBDA_PREBUILD_IMAGES remove_image_fails
   \<and> snd (cleanup_version remove_image_fails example_version [])
       = Inl (Exn ContainerException ''image is in use'')"
  using cleanup_version_errors
          [where w = directory_missing and fv = example_version and tr = "[]"
             and e = "Exn FileNotFoundError ''No such file or directory''"]
        cleanup_version_errors
          [where w = remove_image_fails and fv = example_version and tr = "[]"
             and e = "Exn FileNotFoundError ''No such file or directory''"
             and e' = "Exn ContainerException ''image is in use''"]
  by (simp add: example_defs example_simps isinstance_def)

section \<open>Image selection\<close>

text \<open>
  C10. For a function version with no runtime (\<open>None\<close> or the empty string), image
  selection and the pre-build step both fail with the \<open>NotImplementedError\<close> saying that
  custom images are not supported. \<open>prepare_image\<close> fails before it makes any call, so
  no image is built. \<open>start\<close> raises without asking for a container to be created, and
  what it raises is that error unless starting the endpoint or resolving the network
  raised before image selection was reached.
\<close>

theorem custom_images_not_supported:
  assumes "\<not> truthy (runtime (function_version self))"
  shows "cls custom_images_unsupported = NotImplementedError
     \<and> get_image w self = Inl custom_images_unsupported
     \<and> prepare_image w target_path (function_version self) tr = (tr, Inl custom_images_unsupported)
     \<and> (\<exists>new e. start w env self tr = (self, tr @ new, Inl e)
          \<and> created_images new = []
          \<and> builds new = []
          \<and> (list_all returned new \<longrightarrow> e = custom_images_unsupported))"
proof -
  have img: "get_image w self = Inl custom_images_unsupported"
    using assms by (simp add: get_image_def)
  have prep: "prepare_image w target_path (function_version self) tr
                = (tr, Inl custom_images_unsupported)"
    using assms by (simp add: prepare_image_def io_raise_def)
  have "\<exists>new e. start_calls w self env tr = (tr @ new, Inl e)
          \<and> created_images new = [] \<and> builds new = []
          \<and> (list_all returned new \<longrightarrow> e = custom_images_unsupported)"
    using img
    by (simp add: start_calls_def io_defs get_network_for_executor_def created_images_def
        builds_def returned_def split: option.splits)
  then have "\<exists>new e. start w env self tr = (self, tr @ new, Inl e)
          \<and> created_images new = [] \<and> builds new = []
          \<and> (list_all returned new \<longrightarrow> e = custom_images_unsupported)"
    by (auto simp: start_def)
  with img prep show ?thesis
    by (simp add: custom_images_unsupported_def)
qed

theorem custom_images_not_supported_witness:
  "\<not> truthy (runtime (function_version (example_executor\<lparr>function_version := no_runtime_version\<rparr>)))
   \<and> get_image example_world (example_executor\<lparr>function_version := no_runtime_version\<rparr>)
       = Inl (Exn NotImplementedError ''Custom images are currently not supported'')
   \<and> prepare_image build_fails (Path ''/tmp/lambda/f_7'') no_runtime_version []
       = ([], Inl (Exn NotImplementedError ''Custom images are currently not supported''))
   \<and> start example_world [] (example_executor\<lparr>function_version := no_runtime_version\<rparr>) []
       = (example_executor\<lparr>function_version := no_runtime_version\<rparr>,
          [(Endpoint_start 4510, None), (Get_container_network_for_lambda, None)],
          Inl (Exn NotImplementedError ''Custom images are currently not supported''))"
  using custom_images_not_supported
          [where self = "example_executor\<lparr>function_version := no_runtime_version\<rparr>"
             and w = example_world and env = "[]" and tr = "[]"]
        custom_images_not_supported
          [where self = "example_executor\<lparr>function_version := no_runtime_version\<rparr>"
             and w = build_fails and target_path = "Path ''/tmp/lambda/f_7''" and tr = "[]"]
  by (simp add: run_defs example_defs example_simps custom_images_unsupported_def)

text \<open>
  C1, as the code has it. For a function version with a runtime, the image of the
  container that \<open>start\<close> creates is the derived per-version image exactly when
  pre-building is enabled, whether or not the pre-build succeeded, and otherwise the
  image that the resolver gives for the runtime; the two images always differ. With
  pre-building enabled \<open>start\<close> never copies into a container. With pre-building disabled
  a run of \<open>start\<close> that gets as far as starting the container has first copied, into the
  executor's container, the init binary to the entry point and the content of the staged
  code directory to the task directory, and copies nothing afterwards. A \<open>start\<close> that
  returns has made exactly these calls: those up to the creation of the container, the
  copy step when pre-building is disabled, the start of the container and the
  resolution of its address.
\<close>

theorem start_image_follows_prebuild_flag:
  assumes "truthy (runtime (function_version self))"
  shows "get_image w self =
           (if LAMBDA_PREBUILD_IMAGES w
            then Inr (get_image_name_for_function (function_version self))
            else get_image_for_runtime (IMAGE_MAPPING w) (runtime (function_version self)))
     \<and> Inr (get_image_name_for_function (function_version self))
         \<noteq> get_image_for_runtime (IMAGE_MAPPING w) (runtime (function_version self))
     \<and> (start w env self tr = (self', tr', r) \<longrightarrow>
          (\<exists>new. tr' = tr @ new
             \<and> (created_images new = [] \<or> map Inr (created_images new) = [get_image w self])
             \<and> (LAMBDA_PREBUILD_IMAGES w \<longrightarrow> copies new = [])
             \<and> (\<not> LAMBDA_PREBUILD_IMAGES w \<longrightarrow>
                  (\<forall>out. (Start_container (executor_id self), out) \<in> set new \<longrightarrow>
                     (\<exists>image rest. get_image w self = Inr image
                        \<and> new = start_prefix w env self tr image
                                @ start_copies w self (tr @ start_prefix w env self tr image)
                                @ (Start_container (executor_id self), out) # rest
                        \<and> copies rest = [])))
             \<and> (r = Inr () \<longrightarrow>
                  (\<exists>image net. get_image w self = Inr image
                     \<and> new = start_prefix w env self tr image
                             @ (if LAMBDA_PREBUILD_IMAGES w then []
                                else start_copies w self (tr @ start_prefix w env self tr image))
                             @ [(Start_container (executor_id self), None),
                                (Get_container_ipv4_for_network (executor_id self) net, None)]))))"
proof (intro conjI impI)
  show "get_image w self =
           (if LAMBDA_PREBUILD_IMAGES w
            then Inr (get_image_name_for_function (function_version self))
            else get_image_for_runtime (IMAGE_MAPPING w) (runtime (function_version self)))"
    using assms by (simp add: get_image_def)
next
  show "Inr (get_image_name_for_function (function_version self))
         \<noteq> get_image_for_runtime (IMAGE_MAPPING w) (runtime (function_version self))"
    by (simp add: get_image_name_for_function_def get_image_for_runtime_def IMAGE_PREFIX_def
        Let_def)
next
  assume run: "start w env self tr = (self', tr', r)"
  obtain tr0 r0 where calls0: "start_calls w self env tr = (tr0, r0)"
    by (cases "start_calls w self env tr")
  with run have tr0: "tr0 = tr'" by (cases r0) (simp_all add: start_def)
  from calls0 tr0 have calls: "start_calls w self env tr = (tr', r0)" by simp
  from run calls have ret0: "r = Inr () \<Longrightarrow> \<exists>a. r0 = Inr a"
    by (cases r0) (simp_all add: start_def)
  from start_calls_runs [OF calls] obtain new where all:
    "tr' = tr @ new
     \<and> (created_images new = [] \<or> map Inr (created_images new) = [get_image w self])
     \<and> (LAMBDA_PREBUILD_IMAGES w \<longrightarrow> copies new = [])
     \<and> (\<not> LAMBDA_PREBUILD_IMAGES w \<longrightarrow>
          (\<forall>out. (Start_container (executor_id self), out) \<in> set new \<longrightarrow>
             (\<exists>image rest. get_image w self = Inr image
                \<and> new = start_prefix w env self tr image
                        @ start_copies w self (tr @ start_prefix w env self tr image)
                        @ (Start_container (executor_id self), out) # rest
                \<and> copies rest = [])))" ..
  from all have new: "tr' = tr @ new" by (rule conjunct1)
  from all have img: "created_images new = [] \<or> map Inr (created_images new) = [get_image w self]"
    by (rule conjunct2 [THEN conjunct1])
  from all have on: "LAMBDA_PREBUILD_IMAGES w \<longrightarrow> copies new = []"
    by (rule conjunct2 [THEN conjunct2, THEN conjunct1])
  from all have off: "\<not> LAMBDA_PREBUILD_IMAGES w \<longrightarrow>
          (\<forall>out. (Start_container (executor_id self), out) \<in> set new \<longrightarrow>
             (\<exists>image rest. get_image w self = Inr image
                \<and> new = start_prefix w env self tr image
                        @ start_copies w self (tr @ start_prefix w env self tr image)
                        @ (Start_container (executor_id self), out) # rest
                \<and> copies rest = []))"
    by (rule conjunct2 [THEN conjunct2, THEN conjunct2])
  have ret: "\<exists>image net. get_image w self = Inr image
                     \<and> new = start_prefix w env self tr image
                             @ (if LAMBDA_PREBUILD_IMAGES w then []
                                else start_copies w self (tr @ start_prefix w env self tr image))
                             @ [(Start_container (executor_id self), None),
                                (Get_container_ipv4_for_network (executor_id self) net, None)]"
    if "r = Inr ()"
  proof -
    from ret0 [OF that] obtain a where "r0 = Inr a" ..
    with calls have "start_calls w self env tr = (tr', Inr a)" by simp
    from start_calls_returns [OF this] obtain net image where both:
      "get_image w self = Inr image
       \<and> tr' = tr @ start_prefix w env self tr image
                @ (if LAMBDA_PREBUILD_IMAGES w then []
                   else start_copies w self (tr @ start_prefix w env self tr image))
                @ [(Start_container (executor_id self), None),
                   (Get_container_ipv4_for_network (executor_id self) net, None)]
       \<and> last tr' = (Get_container_ipv4_for_network (executor_id self) net, None)
       \<and> a = returns_str w (butlast tr') (Get_container_ipv4_for_network (executor_id self) net)"
      by (elim exE) 
    from both have image: "get_image w self = Inr image" by (rule conjunct1)
    from both have tr': "tr' = tr @ start_prefix w env self tr image
                @ (if LAMBDA_PREBUILD_IMAGES w then []
                   else start_copies w self (tr @ start_prefix w env self tr image))
                @ [(Start_container (executor_id self), None),
                   (Get_container_ipv4_for_network (executor_id self) net, None)]"
      by (rule conjunct2 [THEN conjunct1])
    from tr' new have "new = start_prefix w env self tr image
                @ (if LAMBDA_PREBUILD_IMAGES w then []
                   else start_copies w self (tr @ start_prefix w env self tr image))
                @ [(Start_container (executor_id self), None),
                   (Get_container_ipv4_for_network (executor_id self) net, None)]"
      by simp
    with image show ?thesis by (intro exI conjI)
  qed
  from ret have ret': "r = Inr () \<longrightarrow>
                  (\<exists>image net. get_image w self = Inr image
                     \<and> new = start_prefix w env self tr image
                             @ (if LAMBDA_PREBUILD_IMAGES w then []
                                else start_copies w self (tr @ start_prefix w env self tr image))
                             @ [(Start_container (executor_id self), None),
                                (Get_container_ipv4_for_network (executor_id self) net, None)])"
    by (rule impI)
  show "\<exists>new. tr' = tr @ new
             \<and> (created_images new = [] \<or> map Inr (created_images new) = [get_image w self])
             \<and> (LAMBDA_PREBUILD_IMAGES w \<longrightarrow> copies new = [])
             \<and> (\<not> LAMBDA_PREBUILD_IMAGES w \<longrightarrow>
                  (\<forall>out. (Start_container (executor_id self), out) \<in> set new \<longrightarrow>
                     (\<exists>image rest. get_image w self = Inr image
                        \<and> new = start_prefix w env self tr image
                                @ start_copies w self (tr @ start_prefix w env self tr image)
                                @ (Start_container (executor_id self), out) # rest
                        \<and> copies rest = [])))
             \<and> (r = Inr () \<longrightarrow>
                  (\<exists>image net. get_image w self = Inr image
                     \<and> new = start_prefix w env self tr image
                             @ (if LAMBDA_PREBUILD_IMAGES w then []
                                else start_copies w self (tr @ start_prefix w env self tr image))
                             @ [(Start_container (executor_id self), None),
                                (Get_container_ipv4_for_network (executor_id self) net, None)]))"
    by (rule exI [of _ new]) (intro conjI new img on off ret')
qed

lemma example_start_runs:
  "start example_world [] example_executor []
     = (example_executor\<lparr>ip := Some ''172.17.0.2'',
          executor_endpoint := \<lparr>port = 4510, service_endpoint = 0,
                                 container_address = Some ''172.17.0.2''\<rparr>\<rparr>,
        [(Endpoint_start 4510, None), (Get_container_network_for_lambda, None),
         (Create_container_from_config
            \<lparr>image_name = ''amazon/aws-lambda-python:3.9'', name = ''exec-1'', env_vars = [],
             network = ''bridge'', entrypoint = ''/var/rapid/init''\<rparr>, None),
         (Get_executable_path, None),
         (Copy_into_container ''exec-1'' ''/opt/rie/aws-lambda-rie'' ''/var/rapid/init'', None),
         (Copy_into_container ''exec-1''
            ''/tmp/lambda/arn_aws_lambda_us-east-1_000000000000_function_hello__LATEST_7/code/.''
            ''/var/task'', None),
         (Start_container ''exec-1'', None),
         (Get_container_ipv4_for_network ''exec-1'' ''bridge'', None)],
        Inr ())"
  "start build_fails [] example_executor tr
     = (example_executor\<lparr>ip := Some ''172.17.0.2'',
          executor_endpoint := \<lparr>port = 4510, service_endpoint = 0,
                                 container_address = Some ''172.17.0.2''\<rparr>\<rparr>,
        tr @ [(Endpoint_start 4510, None), (Get_container_network_for_lambda, None),
         (Create_container_from_config
            \<lparr>image_name = ''localstack/lambda-arn_aws_lambda_us-east-1_000000000000_function_hello__latest'',
             name = ''exec-1'', env_vars = [],
             network = ''bridge'', entrypoint = ''/var/rapid/init''\<rparr>, None),
         (Start_container ''exec-1'', None),
         (Get_container_ipv4_for_network ''exec-1'' ''bridge'', None)],
        Inr ())"
  by (simp_all add: start_def start_calls_def get_network_for_executor_def get_image_def
      get_image_for_runtime_def get_runtime_client_path_def io_defs example_defs example_simps
      RAPID_ENTRYPOINT_def IMAGE_PREFIX_def Path_def path_root_def path_parts_def
      str_path_def)

theorem start_image_follows_prebuild_flag_witness:
  "truthy (runtime (function_version example_executor))
   \<and> \<not> LAMBDA_PREBUILD_IMAGES example_world
   \<and> get_image example_world example_executor = Inr ''amazon/aws-lambda-python:3.9''
   \<and> snd (snd (start example_world [] example_executor [])) = Inr ()
   \<and> (Start_container (executor_id example_executor), None)
        \<in> set (fst (snd (start example_world [] example_executor [])))
   \<and> created_images (fst (snd (start example_world [] example_executor [])))
       = [''amazon/aws-lambda-python:3.9'']
   \<and> copies (fst (snd (start example_world [] example_executor [])))
       = [(''exec-1'', ''/opt/rie/aws-lambda-rie'', ''/var/rapid/init''),
          (''exec-1'',
           ''/tmp/lambda/arn_aws_lambda_us-east-1_000000000000_function_hello__LATEST_7/code/.'',
           ''/var/task'')]
   \<and> LAMBDA_PREBUILD_IMAGES build_fails
   \<and> get_image build_fails example_executor
       = Inr ''localstack/lambda-arn_aws_lambda_us-east-1_000000000000_function_hello__latest''
   \<and> snd (snd (start build_fails [] example_executor [])) = Inr ()
   \<and> created_images (fst (snd (start build_fails [] example_executor [])))
       = [''localstack/lambda-arn_aws_lambda_us-east-1_000000000000_function_hello__latest'']
   \<and> copies (fst (snd (start build_fails [] example_executor []))) = []"
  using start_image_follows_prebuild_flag
          [where self = example_executor and w = example_world and env = "[]" and tr = "[]"
             and self' = "fst (start example_world [] example_executor [])"
             and tr' = "fst (snd (start example_world [] example_executor []))"
             and r = "snd (snd (start example_world [] example_executor []))"]
        start_image_follows_prebuild_flag
          [where self = example_executor and w = build_fails and env = "[]" and tr = "[]"
             and self' = "fst (start build_fails [] example_executor [])"
             and tr' = "fst (snd (start build_fails [] example_executor []))"
             and r = "snd (snd (start build_fails [] example_executor []))"]
  unfolding example_start_runs
  by (simp add: get_image_def get_image_for_runtime_def example_defs example_simps
      created_images_def copies_def IMAGE_PREFIX_def)

text \<open>
  C1, as the spec has it, fails. In the world \<open>build_fails\<close> pre-building is enabled. The
  pre-build does not succeed: \<open>prepare_version\<close> raises out of the pre-build step and no
  image is built. A \<open>start\<close> after that still creates the container from the derived
  image, not from the base image of the runtime, and starts it without copying anything
  into it.
\<close>

theorem start_after_failed_prebuild_counterexample:
  "LAMBDA_PREBUILD_IMAGES build_fails
   \<and> snd (prepare_version build_fails example_version [])
       = Inl (same_file_error (Path ''/opt/rie/aws-lambda-rie'') ''/opt/rie/aws-lambda-rie'')
   \<and> builds (fst (prepare_version build_fails example_version [])) = []
   \<and> get_image_for_runtime (IMAGE_MAPPING build_fails) (runtime example_version)
       = Inr ''amazon/aws-lambda-python:3.9''
   \<and> get_image_name_for_function example_version
       = ''localstack/lambda-arn_aws_lambda_us-east-1_000000000000_function_hello__latest''
   \<and> created_images
        (fst (snd (start build_fails [] example_executor
                     (fst (prepare_version build_fails example_version [])))))
       = [''localstack/lambda-arn_aws_lambda_us-east-1_000000000000_function_hello__latest'']
   \<and> copies
        (fst (snd (start build_fails [] example_executor
                     (fst (prepare_version build_fails example_version []))))) = []
   \<and> (Start_container ''exec-1'', None)
        \<in> set (fst (snd (start build_fails [] example_executor
                            (fst (prepare_version build_fails example_version [])))))"
  unfolding example_start_runs example_prepare_run
  by (simp add: get_image_for_runtime_def example_defs example_simps created_images_def
      copies_def builds_def IMAGE_PREFIX_def)

section \<open>The address of the executor\<close>



text \<open>
  C9. \<open>stop\<close> leaves the stored address as it is: after a \<open>start\<close> that returned, the
  executor that \<open>stop\<close> leaves behind, whether \<open>stop\<close> returns or raises, holds the
  address that \<open>start\<close> stored, and \<open>get_address\<close> answers as it did before \<open>stop\<close>.
\<close>

theorem stop_keeps_address:
  assumes "start w env self tr = (self1, tr1, Inr ())"
      and "stop w self1 tr1 = (self2, tr2, r)"
  shows "ip self1 \<noteq> None \<and> ip self2 = ip self1 \<and> get_address self2 = get_address self1"
proof -
  from start_returns_ip [OF assms(1)] have "ip self1 \<noteq> None" by auto
  moreover from stop_self [OF assms(2)] have "self2 = self1" .
  ultimately show ?thesis by simp
qed

theorem stop_keeps_address_witness:
  "start example_world [] example_executor []
     = (fst (start example_world [] example_executor []),
        fst (snd (start example_world [] example_executor [])), Inr ())
   \<and> get_address (fst (start example_world [] example_executor [])) = Inr ''172.17.0.2''
   \<and> get_address
        (fst (stop example_world (fst (start example_world [] example_executor []))
                (fst (snd (start example_world [] example_executor [])))))
       = Inr ''172.17.0.2''"
  using stop_keeps_address
          [where w = example_world and env = "[]" and self = example_executor and tr = "[]"
             and ?self1.0 = "fst (start example_world [] example_executor [])"
             and ?tr1.0 = "fst (snd (start example_world [] example_executor []))"
             and ?self2.0 = "fst (stop example_world (fst (start example_world [] example_executor []))
                (fst (snd (start example_world [] example_executor []))))"
             and ?tr2.0 = "fst (snd (stop example_world (fst (start example_world [] example_executor []))
                (fst (snd (start example_world [] example_executor [])))))"
             and r = "snd (snd (stop example_world (fst (start example_world [] example_executor []))
                (fst (snd (start example_world [] example_executor [])))))"]
  by (simp add: run_defs example_defs example_simps)

section \<open>Stopping and invoking\<close>

text \<open>
  C4. When stopping and removing the container succeed and the shutdown of the executor
  endpoint raises an exception (an instance of \<open>Exception\<close>), \<open>stop\<close> returns normally:
  the exception is caught, one debug line with the function's ARN and the exception is
  logged, and nothing is raised to the caller.
\<close>

theorem stop_swallows_shutdown_error:
  assumes "raises w tr (Stop_container (executor_id self) 5) = None"
      and "raises w (tr @ [(Stop_container (executor_id self) 5, None)])
             (Remove_container (executor_id self)) = None"
      and "raises w (tr @ [(Stop_container (executor_id self) 5, None),
                           (Remove_container (executor_id self), None)])
             (Endpoint_shutdown (port (executor_endpoint self))) = Some e"
      and "isinstance e Exception"
  shows "stop w self tr =
     (self,
      tr @ [(Stop_container (executor_id self) 5, None),
            (Remove_container (executor_id self), None),
            (Endpoint_shutdown (port (executor_endpoint self)), Some e),
            (Log DEBUG ''Error while stopping executor endpoint for lambda %s, error: %s''
               [Str (qualified_arn (function_version self)), Exc e], None)],
      Inr ())"
  using assms by (simp add: stop_def stop_calls_def io_defs)

theorem stop_swallows_shutdown_error_witness:
  "raises shutdown_fails [] (Stop_container (executor_id example_executor) 5) = None
   \<and> raises shutdown_fails [(Stop_container (executor_id example_executor) 5, None)]
        (Remove_container (executor_id example_executor)) = None
   \<and> raises shutdown_fails [(Stop_container (executor_id example_executor) 5, None),
                            (Remove_container (executor_id example_executor), None)]
        (Endpoint_shutdown (port (executor_endpoint example_executor)))
       = Some (Exn RuntimeError ''server gone'')
   \<and> isinstance (Exn RuntimeError ''server gone'') Exception
   \<and> snd (snd (stop shutdown_fails example_executor [])) = Inr ()"
  using stop_swallows_shutdown_error
          [where w = shutdown_fails and self = example_executor and tr = "[]"
             and e = "Exn RuntimeError ''server gone''"]
  by (simp add: example_defs example_simps isinstance_def)

text \<open>
  C8. \<open>invoke\<close> hands the endpoint the payload it was given: its run is one debug line,
  whose first argument is the truncated rendering of the payload, followed by one call
  of the endpoint's \<open>invoke\<close> with the payload itself, whatever the truncation length
  and the truncation do.
\<close>

theorem invoke_forwards_payload:
  "fst (snd (invoke w payload self tr)) =
     tr @ [(Log DEBUG (''Sending invoke-payload '' @ [CHR 0x27] @ ''%s'' @ [CHR 0x27]
                       @ '' to executor '' @ [CHR 0x27] @ ''%s'' @ [CHR 0x27])
              [Str (strings_truncate w (json_dumps w payload) (LAMBDA_TRUNCATE_STDOUT w)),
               Str (executor_id self)], None),
           (Endpoint_invoke (port (executor_endpoint self)) payload,
            raises w (tr @ [(Log DEBUG (''Sending invoke-payload '' @ [CHR 0x27] @ ''%s'' @ [CHR 0x27]
                       @ '' to executor '' @ [CHR 0x27] @ ''%s'' @ [CHR 0x27])
              [Str (strings_truncate w (json_dumps w payload) (LAMBDA_TRUNCATE_STDOUT w)),
               Str (executor_id self)], None)])
              (Endpoint_invoke (port (executor_endpoint self)) payload))]
   \<and> invoked_payloads (fst (snd (invoke w payload self tr))) = invoked_payloads tr @ [payload]"
  by (simp add: invoke_def invoke_calls_def io_defs invoked_payloads_def split: option.splits)

theorem invoke_forwards_payload_witness:
  "invoked_payloads (fst (snd (invoke example_world [(''key'', ''value'')] example_executor [])))
     = [[(''key'', ''value'')]]
   \<and> length (json_dumps example_world [(''key'', ''value'')]) = 16
   \<and> strings_truncate example_world (json_dumps example_world [(''key'', ''value'')])
        (LAMBDA_TRUNCATE_STDOUT example_world)
       = take 8 (json_dumps example_world [(''key'', ''value'')]) @ ''...''"
  using invoke_forwards_payload
          [where w = example_world and payload = "[(''key'', ''value'')]"
             and self = example_executor and tr = "[]"]
  by (simp add: example_defs invoked_payloads_def)

end
